theory Spec2Isabelle
  imports Main "HOL-Library.Word"
begin

unbundle bit_operations_syntax

section \<open>The Fuchsia executor backend: coverage collection and call reporting\<close>

text \<open>
  A shallow embedding of \<^verbatim>\<open>executor/executor_fuchsia.h\<close>. Fixed-width C integers are
  words; \<^verbatim>\<open>size_t\<close> loop counters and element counts are natural numbers (they stay
  below \<open>2 ^ 20\<close> wherever the code uses them as indices). A C array is a function from
  its index to the element; an access beyond the array's declared length, which is
  undefined behaviour in C, is the error value \<open>Out_of_bounds\<close> of the model. A call
  of \<^verbatim>\<open>fail\<close> ends the process: it is the \<open>Inl\<close> branch of a result.
\<close>

subsection \<open>Types and constants\<close>

type_synonym uint64 = "64 word"
type_synonym uint32 = "32 word"

text \<open>\<^verbatim>\<open>intptr_t\<close> on the 64-bit targets of Fuchsia; the word is the bit pattern, \<open>- 1\<close>
  is all ones.\<close>
type_synonym intptr = "64 word"

text \<open>\<^verbatim>\<open>zx_status_t\<close> is a 32-bit signed integer; the word is its bit pattern.\<close>
type_synonym zx_status = "32 word"

text \<open>\<^verbatim>\<open>#define MAX_COVSZ (1ULL << 20)\<close>\<close>
definition MAX_COVSZ :: nat where
  "MAX_COVSZ = 2 ^ 20"

text \<open>\<^verbatim>\<open>static const uint64_t kPcFixup = 1;\<close>\<close>
definition kPcFixup :: uint64 where
  "kPcFixup = 1"

definition kCovPcsFileName :: string where
  "kCovPcsFileName = ''/boot/kernel/data/zircon.elf.1.sancov''"

text \<open>Modelled from the spec: \<^verbatim>\<open>ZX_OK\<close>, the status of a successful kernel call, comes
  from the Zircon headers; it is the one status that is not a non-zero error code.\<close>
definition ZX_OK :: zx_status where
  "ZX_OK = 0"

text \<open>The thread-local \<^verbatim>\<open>cover_ctx\<close>. Each of the four tables has \<open>MAX_COVSZ\<close> elements.\<close>
record cover_ctx =
  base_covcount :: "nat \<Rightarrow> uint64"
  curr_covcount :: "nat \<Rightarrow> uint64"
  pc_table :: "nat \<Rightarrow> uint64"
  real_coverage_truncated :: "nat \<Rightarrow> uint32"
  total_pcs :: nat
  covcount_vmo :: uint32

text \<open>Modelled from the spec: \<^verbatim>\<open>cover_t\<close> is declared in the part of the executor that all
  backends share; the coverage result has a size (the number of hits) and a reference to
  the hit table. \<^verbatim>\<open>size\<close> is a 32-bit count; \<^verbatim>\<open>data\<close> is a pointer into
  \<^verbatim>\<open>cover.real_coverage_truncated\<close>, read as 32-bit values. Nothing in this backend
  writes to that table between \<^verbatim>\<open>cover_collect\<close> and the report, so the model carries
  the table the pointer refers to.
\<close>
record cover_t =
  cover_t_size :: uint32
  cover_t_data :: "nat \<Rightarrow> uint32"

text \<open>Modelled from the spec: \<^verbatim>\<open>fail\<close> is defined in the shared part of the executor;
  a fatal failure ends the process with a diagnostic. The reasons for which the process
  ends: one per call of \<^verbatim>\<open>fail\<close> in this file, and the out-of-bounds array access.\<close>
datatype failure =
    Fail_open_coverage_file string
  | Fail_pc_table_too_small
  | Fail_fetch_coverage zx_status
  | Fail_copy_coverage zx_status
  | Fail_control_pipe_call_write
  | Fail_signals_table_write
  | Fail_coverage_table_write
  | Out_of_bounds

text \<open>
  What the kernel and the file system answer during one snapshot:
  the status of \<^verbatim>\<open>zx_coverage_ctl(zx_thread_self(), 2, vmo)\<close>, the status of
  \<^verbatim>\<open>zx_vmo_read\<close>, the counters held by the VMO after the refresh, and the files
  that can be opened, each as the sequence of complete 64-bit values it holds.
\<close>
record kernel_env =
  coverage_ctl_status :: zx_status
  vmo_read_status :: zx_status
  vmo_counts :: "nat \<Rightarrow> uint64"
  files :: "string \<Rightarrow> uint64 list option"

subsection \<open>Snapshot reader\<close>

text \<open>\<^verbatim>\<open>fread(dst, sizeof(uint64_t), elems, f)\<close> on a freshly opened file: the number of
  complete items read, and the buffer after the read.\<close>
definition fread :: "(nat \<Rightarrow> uint64) \<Rightarrow> nat \<Rightarrow> uint64 list \<Rightarrow> nat \<times> (nat \<Rightarrow> uint64)" where
  "fread dst elems vals =
     (let n = min elems (length vals)
      in (n, (\<lambda>i. if i < n then vals ! i else dst i)))"

definition snapshot_sancov ::
  "(nat \<Rightarrow> uint64) \<Rightarrow> nat \<Rightarrow> string \<Rightarrow> (string \<Rightarrow> uint64 list option)
    \<Rightarrow> failure + (nat \<times> (nat \<Rightarrow> uint64))" where
  "snapshot_sancov dst elems filename fs =
     (case fs filename of
        None \<Rightarrow> Inl (Fail_open_coverage_file filename)
      | Some vals \<Rightarrow>
          (case fread dst elems vals of
             (n, dst') \<Rightarrow> if n = elems then Inl Fail_pc_table_too_small else Inr (n, dst')))"

definition snapshot_pctable ::
  "(nat \<Rightarrow> uint64) \<Rightarrow> nat \<Rightarrow> (string \<Rightarrow> uint64 list option)
    \<Rightarrow> failure + (nat \<times> (nat \<Rightarrow> uint64))" where
  "snapshot_pctable dst elems fs = snapshot_sancov dst elems kCovPcsFileName fs"

definition snapshot_covcount ::
  "(nat \<Rightarrow> uint64) \<Rightarrow> nat \<Rightarrow> kernel_env \<Rightarrow> failure + (nat \<Rightarrow> uint64)" where
  "snapshot_covcount dst elems env =
     (if coverage_ctl_status env \<noteq> ZX_OK then Inl (Fail_fetch_coverage (coverage_ctl_status env))
      else if vmo_read_status env \<noteq> ZX_OK then Inl (Fail_copy_coverage (vmo_read_status env))
      else Inr (\<lambda>i. if i < elems then vmo_counts env i else dst i))"

subsection \<open>Coverage lifecycle\<close>

definition cover_reset :: "cover_ctx \<Rightarrow> kernel_env \<Rightarrow> failure + cover_ctx" where
  "cover_reset c env =
     (case snapshot_covcount (base_covcount c) MAX_COVSZ env of
        Inl e \<Rightarrow> Inl e
      | Inr d \<Rightarrow> Inr (c\<lparr>base_covcount := d\<rparr>))"

text \<open>The value stored for a hit:
  \<^verbatim>\<open>static_cast<uint32_t>((cover.pc_table[i] + kPcFixup) & 0xFFFFFFFF)\<close>.\<close>
definition truncated_pc :: "uint64 \<Rightarrow> uint32" where
  "truncated_pc pc = ucast ((pc + kPcFixup) AND 0xFFFFFFFF)"

text \<open>
  The \<^verbatim>\<open>for\<close> loop of \<^verbatim>\<open>cover_collect\<close>, from index \<open>i\<close> with \<open>num_pcs\<close> hits stored
  so far. The store to \<^verbatim>\<open>real_coverage_truncated[num_pcs]\<close> is checked against the
  length of the table.
\<close>
function cover_loop :: "cover_ctx \<Rightarrow> nat \<Rightarrow> nat \<Rightarrow> nat \<Rightarrow> failure + (cover_ctx \<times> nat)" where
  "cover_loop c cov_size i num_pcs =
     (if i < cov_size then
        (if pc_table c i = 0 then cover_loop c cov_size (i + 1) num_pcs
         else if base_covcount c i = curr_covcount c i then cover_loop c cov_size (i + 1) num_pcs
         else if \<not> num_pcs < MAX_COVSZ then Inl Out_of_bounds
         else cover_loop
                (c\<lparr>real_coverage_truncated :=
                     (real_coverage_truncated c)(num_pcs := truncated_pc (pc_table c i))\<rparr>)
                cov_size (i + 1) (num_pcs + 1))
      else Inr (c, num_pcs))"
  by pat_completeness auto
termination
  by (relation "measure (\<lambda>(c, cov_size, i, num_pcs). cov_size - i)") auto

declare cover_loop.simps [simp del]

definition cover_collect ::
  "cover_ctx \<Rightarrow> cover_t \<Rightarrow> kernel_env \<Rightarrow> failure + (cover_ctx \<times> cover_t)" where
  "cover_collect c cov env =
     (case snapshot_covcount (curr_covcount c) MAX_COVSZ env of
        Inl e \<Rightarrow> Inl e
      | Inr cur \<Rightarrow>
          (case snapshot_pctable (pc_table c) MAX_COVSZ (files env) of
             Inl e \<Rightarrow> Inl e
           | Inr (n, pcs) \<Rightarrow>
               (case cover_loop (c\<lparr>curr_covcount := cur, pc_table := pcs, total_pcs := n\<rparr>) n 0 0 of
                  Inl e \<Rightarrow> Inl e
                | Inr (c', num_pcs) \<Rightarrow>
                    Inr (c', cov\<lparr>cover_t_size := of_nat num_pcs,
                                 cover_t_data := real_coverage_truncated c'\<rparr>))))"

text \<open>The slots from \<open>i\<close> below \<open>n\<close> that count as hit: a non-zero location whose
  counter differs from the baseline.\<close>
definition hit_slots :: "cover_ctx \<Rightarrow> nat \<Rightarrow> nat \<Rightarrow> nat list" where
  "hit_slots c i n =
     filter (\<lambda>j. pc_table c j \<noteq> 0 \<and> base_covcount c j \<noteq> curr_covcount c j) [i..<n]"

subsection \<open>Return-code normaliser\<close>

text \<open>Modelled from the spec: the call descriptor \<^verbatim>\<open>call_t\<close> is declared outside this file.
  The field that \<^verbatim>\<open>execute_syscall\<close> inspects is the name, a C string, here its
  characters before the terminating NUL.\<close>
record call_t =
  call_name :: string

text \<open>The thread-local variables this file reads and writes: \<^verbatim>\<open>errno\<close> (an \<^verbatim>\<open>int\<close>, as
  its bit pattern) and the coverage context \<^verbatim>\<open>cover\<close>.\<close>
record thread_local =
  errno :: "32 word"
  cover :: cover_ctx

text \<open>\<^verbatim>\<open>strncmp(s1, s2, n) == 0\<close> and \<^verbatim>\<open>!strcmp(s1, s2)\<close> on NUL-free strings.\<close>
definition strncmp_is_0 :: "string \<Rightarrow> string \<Rightarrow> nat \<Rightarrow> bool" where
  "strncmp_is_0 s1 s2 n = (take n s1 = take n s2)"

definition strcmp_is_0 :: "string \<Rightarrow> string \<Rightarrow> bool" where
  "strcmp_is_0 s1 s2 = (s1 = s2)"

text \<open>
  \<^verbatim>\<open>execute_syscall\<close>, after \<^verbatim>\<open>c->call(a[0], ..., a[8])\<close> has returned \<open>res\<close> and left the
  thread-local variables as \<open>tls\<close>. \<^verbatim>\<open>ZX_OK\<close> is widened to \<^verbatim>\<open>intptr_t\<close> with its sign; the
  literal \<^verbatim>\<open>0xffffffff\<close> is an \<^verbatim>\<open>unsigned int\<close>, widened to the 64-bit value
  \<open>4294967295\<close>; the negation \<^verbatim>\<open>-res\<close> is two's complement (it wraps at the most
  negative value, where C leaves it undefined).
\<close>
definition execute_syscall :: "call_t \<Rightarrow> intptr \<Rightarrow> thread_local \<Rightarrow> intptr \<times> thread_local" where
  "execute_syscall c res tls =
     (if strncmp_is_0 (call_name c) ''zx_'' 3 then
        (if res = scast ZX_OK \<or>
            strcmp_is_0 (call_name c) ''zx_debuglog_read'' \<or>
            strcmp_is_0 (call_name c) ''zx_clock_get'' \<or>
            strcmp_is_0 (call_name c) ''zx_clock_get_monotonic'' \<or>
            strcmp_is_0 (call_name c) ''zx_deadline_after'' \<or>
            strcmp_is_0 (call_name c) ''zx_ticks_get''
         then (0, tls)
         else (- 1, tls\<lparr>errno := ucast ((- res) AND 0x7f)\<rparr>))
      else (if res = 0xffffffff then (- 1, tls) else (res, tls)))"

subsection \<open>Result reporter\<close>

text \<open>Modelled from the spec: \<^verbatim>\<open>thread_t\<close>, the per-call execution record (index, call
  number, result, error code, fault-injection flag, coverage result), is declared
  outside this file. These are the fields that the report reads. \<open>th_id\<close> stands for the
  address of the thread slot, which the code compares with \<^verbatim>\<open>last_scheduled\<close>.\<close>
record thread_t =
  th_id :: nat
  th_call_index :: uint32
  th_call_num :: uint32
  th_res :: intptr
  th_reserrno :: uint32
  th_fault_injected :: bool
  th_cov :: cover_t

text \<open>Modelled from the spec: \<^verbatim>\<open>call_reply\<close> is declared outside this file. Its fields,
  in order and of fixed width: magic, done, status (the \<^verbatim>\<open>header\<close>, inlined here), call
  index, call number, error code, flag bitset, signal-table size, cover-table size,
  comparison-table size. The source assigns 32-bit values to them.\<close>
record call_reply =
  reply_magic :: uint32
  reply_done :: uint32
  reply_status :: uint32
  reply_call_index :: uint32
  reply_call_num :: uint32
  reply_reserrno :: uint32
  reply_flags :: uint32
  reply_signal_size :: uint32
  reply_cover_size :: uint32
  reply_comps_size :: uint32

text \<open>Modelled from the spec: \<^verbatim>\<open>sizeof(call_reply)\<close>, as a \<^verbatim>\<open>size_t\<close>, for ten 32-bit
  fields.\<close>
definition sizeof_call_reply :: "64 word" where
  "sizeof_call_reply = 40"

text \<open>
  The global variables and constants of the executor that the report reads. They are
  declared in the part of the executor shared by all backends, so the magic number and
  the four flag bits are parameters here, like the two coverage flags and the thread
  scheduled last.
\<close>
record executor_globals =
  kOutMagic :: uint32
  call_flag_executed :: uint32
  call_flag_finished :: uint32
  call_flag_blocked :: uint32
  call_flag_fault_injected :: uint32
  flag_coverage :: bool
  flag_collect_cover :: bool
  last_scheduled :: nat

text \<open>The values returned by the calls of \<^verbatim>\<open>write(kOutPipeFd, ...)\<close>, in the order of the
  source (\<^verbatim>\<open>ssize_t\<close>, as bit patterns). A value is looked at only if its call is reached.\<close>
record pipe_env =
  header_wrote :: "64 word"
  signal_wrote :: "64 word"
  cover_wrote :: "64 word"

text \<open>What has been written to the output pipe in full: a reply header, or a table of
  32-bit values.\<close>
datatype chunk = Header call_reply | Table "uint32 list"

text \<open>Lines 144 to 168 of the source: the reply as it stands when it is written.\<close>
definition call_reply_of :: "executor_globals \<Rightarrow> thread_t \<Rightarrow> bool \<Rightarrow> call_reply" where
  "call_reply_of g th finished =
     (let blocked = (th_id th \<noteq> last_scheduled g);
          call_flags = call_flag_executed g OR (if blocked then call_flag_blocked g else 0);
          reserrno = (if finished then (if th_res th \<noteq> - 1 then 0 else th_reserrno th) else 999);
          call_flags = (if finished
                        then call_flags OR
                               (call_flag_finished g OR
                                  (if th_fault_injected th then call_flag_fault_injected g else 0))
                        else call_flags);
          reply = \<lparr>reply_magic = kOutMagic g, reply_done = 0, reply_status = 0,
                   reply_call_index = th_call_index th, reply_call_num = th_call_num th,
                   reply_reserrno = reserrno, reply_flags = call_flags,
                   reply_signal_size = 0, reply_cover_size = 0, reply_comps_size = 0\<rparr>
      in if flag_coverage g
         then (let reply = reply\<lparr>reply_signal_size := cover_t_size (th_cov th)\<rparr>
               in if flag_collect_cover g
                  then reply\<lparr>reply_cover_size := cover_t_size (th_cov th)\<rparr>
                  else reply)
         else reply)"

text \<open>The \<^verbatim>\<open>th->cov.size\<close> 32-bit values found at \<^verbatim>\<open>th->cov.data\<close>.\<close>
definition cov_table :: "cover_t \<Rightarrow> uint32 list" where
  "cov_table cov = map (cover_t_data cov) [0..<unat (cover_t_size cov)]"

text \<open>
  \<^verbatim>\<open>write_call_output\<close>: the chunks written in full, in order, and the failure that ended
  the process, if any. \<^verbatim>\<open>th->cov.size * sizeof(uint32_t)\<close> is computed in \<^verbatim>\<open>size_t\<close>, and
  \<^verbatim>\<open>wrote\<close> is compared with it after conversion to \<^verbatim>\<open>size_t\<close>.
\<close>
definition write_call_output ::
  "executor_globals \<Rightarrow> thread_t \<Rightarrow> bool \<Rightarrow> pipe_env \<Rightarrow> chunk list \<times> failure option" where
  "write_call_output g th finished pipe =
     (let reply = call_reply_of g th finished
      in if header_wrote pipe \<noteq> sizeof_call_reply then ([], Some Fail_control_pipe_call_write)
         else if flag_coverage g then
           (if signal_wrote pipe \<noteq> 4 * ucast (cover_t_size (th_cov th))
            then ([Header reply], Some Fail_signals_table_write)
            else if \<not> flag_collect_cover g
            then ([Header reply, Table (cov_table (th_cov th))], None)
            else if cover_wrote pipe \<noteq> 4 * ucast (cover_t_size (th_cov th))
            then ([Header reply, Table (cov_table (th_cov th))], Some Fail_coverage_table_write)
            else ([Header reply, Table (cov_table (th_cov th)), Table (cov_table (th_cov th))],
                  None))
         else ([Header reply], None))"

subsection \<open>Auxiliary notions for the statements\<close>

text \<open>The table \<open>t\<close> after the values \<open>vs\<close> have been stored at the indices
  \<open>k0, k0 + 1, ...\<close>; every other index keeps its element.\<close>
definition stored :: "(nat \<Rightarrow> uint32) \<Rightarrow> nat \<Rightarrow> uint32 list \<Rightarrow> nat \<Rightarrow> uint32" where
  "stored t k0 vs = (\<lambda>k. if k0 \<le> k \<and> k < k0 + length vs then vs ! (k - k0) else t k)"

text \<open>The context when the loop of \<^verbatim>\<open>cover_collect\<close> starts: the counters of the VMO are
  in \<open>curr_covcount\<close>, and the values \<open>vals\<close> read from the file are at the start of
  \<open>pc_table\<close>.\<close>
definition collect_ctx :: "cover_ctx \<Rightarrow> kernel_env \<Rightarrow> uint64 list \<Rightarrow> cover_ctx" where
  "collect_ctx c env vals =
     c\<lparr>curr_covcount := (\<lambda>i. if i < MAX_COVSZ then vmo_counts env i else curr_covcount c i),
       pc_table := (\<lambda>i. if i < length vals then vals ! i else pc_table c i),
       total_pcs := length vals\<rparr>"

text \<open>The values that the loop stores, in the order of their slots.\<close>
definition hit_values :: "cover_ctx \<Rightarrow> nat \<Rightarrow> uint32 list" where
  "hit_values c n = map (\<lambda>j. truncated_pc (pc_table c j)) (hit_slots c 0 n)"

text \<open>The context and the result that \<^verbatim>\<open>cover_collect\<close> leaves behind when it returns,
  the file holding \<open>vals\<close>.\<close>
definition collected_ctx :: "cover_ctx \<Rightarrow> kernel_env \<Rightarrow> uint64 list \<Rightarrow> cover_ctx" where
  "collected_ctx c env vals =
     (collect_ctx c env vals)\<lparr>real_coverage_truncated :=
        stored (real_coverage_truncated c) 0 (hit_values (collect_ctx c env vals) (length vals))\<rparr>"

definition collected_cov :: "cover_ctx \<Rightarrow> cover_t \<Rightarrow> kernel_env \<Rightarrow> uint64 list \<Rightarrow> cover_t" where
  "collected_cov c cov env vals =
     cov\<lparr>cover_t_size := of_nat (length (hit_slots (collect_ctx c env vals) 0 (length vals))),
         cover_t_data := stored (real_coverage_truncated c) 0
                           (hit_values (collect_ctx c env vals) (length vals))\<rparr>"

subsection \<open>Concrete inputs\<close>

text \<open>An array whose first elements are \<open>xs\<close> and whose other elements are zero.\<close>
definition array_of :: "'a::zero list \<Rightarrow> nat \<Rightarrow> 'a" where
  "array_of xs i = (if i < length xs then xs ! i else 0)"

text \<open>A context whose baseline counters are \<open>base\<close>, with every other table zero.\<close>
definition example_ctx :: "uint64 list \<Rightarrow> cover_ctx" where
  "example_ctx base =
     \<lparr>base_covcount = array_of base, curr_covcount = array_of [], pc_table = array_of [],
      real_coverage_truncated = array_of [], total_pcs = 0, covcount_vmo = 0\<rparr>"

text \<open>A kernel that answers every call with \<open>ZX_OK\<close>, holds the counters \<open>counts\<close>, and
  exposes the location table \<open>pcs\<close> under the well-known file name.\<close>
definition example_env :: "uint64 list \<Rightarrow> uint64 list \<Rightarrow> kernel_env" where
  "example_env pcs counts =
     \<lparr>coverage_ctl_status = ZX_OK, vmo_read_status = ZX_OK, vmo_counts = array_of counts,
      files = (\<lambda>name. if name = kCovPcsFileName then Some pcs else None)\<rparr>"

definition example_cov :: cover_t where
  "example_cov = \<lparr>cover_t_size = 0, cover_t_data = array_of []\<rparr>"

definition example_tls :: thread_local where
  "example_tls = \<lparr>errno = 11, cover = example_ctx []\<rparr>"

text \<open>Globals with the four flags on four different bits.\<close>
definition example_globals :: "bool \<Rightarrow> bool \<Rightarrow> executor_globals" where
  "example_globals coverage collect_cover =
     \<lparr>kOutMagic = 0xbadf00d, call_flag_executed = 1, call_flag_finished = 2,
      call_flag_blocked = 4, call_flag_fault_injected = 8,
      flag_coverage = coverage, flag_collect_cover = collect_cover, last_scheduled = 0\<rparr>"

text \<open>A thread that is the last one scheduled, with call result \<open>r\<close> and coverage \<open>cov\<close>.\<close>
definition example_thread :: "intptr \<Rightarrow> cover_t \<Rightarrow> thread_t" where
  "example_thread r cov =
     \<lparr>th_id = 0, th_call_index = 3, th_call_num = 17, th_res = r, th_reserrno = 5,
      th_fault_injected = False, th_cov = cov\<rparr>"

text \<open>A pipe that takes the whole header, and \<open>bytes\<close> bytes of each table.\<close>
definition example_pipe :: "64 word \<Rightarrow> pipe_env" where
  "example_pipe bytes = \<lparr>header_wrote = 40, signal_wrote = bytes, cover_wrote = bytes\<rparr>"

section \<open>Properties\<close>

lemma hit_slots_unfold:
  "i < n \<Longrightarrow> hit_slots c i n =
     (if pc_table c i \<noteq> 0 \<and> base_covcount c i \<noteq> curr_covcount c i
      then i # hit_slots c (Suc i) n else hit_slots c (Suc i) n)"
  by (simp add: hit_slots_def upt_conv_Cons)

lemma hit_slots_empty: "\<not> i < n \<Longrightarrow> hit_slots c i n = []"
  by (simp add: hit_slots_def)

lemma length_hit_slots: "length (hit_slots c i n) \<le> n - i"
proof -
  have "length (hit_slots c i n) \<le> length [i..<n]"
    unfolding hit_slots_def by (rule length_filter_le)
  then show ?thesis by simp
qed

lemma hit_slots_truncated_upd [simp]:
  "hit_slots (c\<lparr>real_coverage_truncated := t\<rparr>) i n = hit_slots c i n"
  by (simp add: hit_slots_def)

lemma hit_slots_skip:
  "i < n \<Longrightarrow> \<not> (pc_table c i \<noteq> 0 \<and> base_covcount c i \<noteq> curr_covcount c i) \<Longrightarrow>
   hit_slots c i n = hit_slots c (i + 1) n"
  by (simp add: hit_slots_unfold)

lemma hit_slots_take:
  "i < n \<Longrightarrow> pc_table c i \<noteq> 0 \<Longrightarrow> base_covcount c i \<noteq> curr_covcount c i \<Longrightarrow>
   hit_slots c i n = i # hit_slots c (i + 1) n"
  by (simp add: hit_slots_unfold)

lemma stored_Nil: "stored t k0 [] = t"
  by (rule ext) (auto simp: stored_def)

lemma stored_Cons: "stored (t(k0 := v)) (Suc k0) vs = stored t k0 (v # vs)"
  by (rule ext) (auto simp: stored_def nth_Cons')

lemma cover_loop_result:
  "num_pcs + length (hit_slots c i n) \<le> MAX_COVSZ \<Longrightarrow>
   cover_loop c n i num_pcs =
     Inr (c\<lparr>real_coverage_truncated :=
            stored (real_coverage_truncated c) num_pcs
              (map (\<lambda>j. truncated_pc (pc_table c j)) (hit_slots c i n))\<rparr>,
          num_pcs + length (hit_slots c i n))"
proof (induction c n i num_pcs rule: cover_loop.induct)
  case (1 c cov_size i num_pcs)
  show ?case
  proof (cases "i < cov_size")
    case False
    then have hs: "hit_slots c i cov_size = []"
      by (rule hit_slots_empty)
    from False show ?thesis
      unfolding hs by (simp add: cover_loop.simps [of c cov_size i num_pcs] stored_Nil)
  next
    case True
    note lt = True
    show ?thesis
    proof (cases "pc_table c i \<noteq> 0 \<and> base_covcount c i \<noteq> curr_covcount c i")
      case False
      have hs: "hit_slots c i cov_size = hit_slots c (i + 1) cov_size"
        using lt False by (rule hit_slots_skip)
      have step: "cover_loop c cov_size i num_pcs = cover_loop c cov_size (i + 1) num_pcs"
        using lt False by (auto simp: cover_loop.simps [of c cov_size i num_pcs])
      have pre: "num_pcs + length (hit_slots c (i + 1) cov_size) \<le> MAX_COVSZ"
        using "1.prems" unfolding hs .
      have ih: "cover_loop c cov_size (i + 1) num_pcs =
          Inr (c\<lparr>real_coverage_truncated :=
            stored (real_coverage_truncated c) num_pcs
              (map (\<lambda>j. truncated_pc (pc_table c j)) (hit_slots c (i + 1) cov_size))\<rparr>,
          num_pcs + length (hit_slots c (i + 1) cov_size))"
      proof (cases "pc_table c i = 0")
        case True
        from "1.IH"(1) [OF lt True pre] show ?thesis .
      next
        case nz: False
        with False have eq: "base_covcount c i = curr_covcount c i" by simp
        from "1.IH"(2) [OF lt nz eq pre] show ?thesis .
      qed
      show ?thesis unfolding step hs ih ..
    next
      case True
      then have nz: "pc_table c i \<noteq> 0" and ne: "base_covcount c i \<noteq> curr_covcount c i"
        by simp_all
      have hs: "hit_slots c i cov_size = i # hit_slots c (i + 1) cov_size"
        using lt nz ne by (rule hit_slots_take)
      with "1.prems" have bound: "num_pcs < MAX_COVSZ" by simp
      let ?c1 = "c\<lparr>real_coverage_truncated :=
                     (real_coverage_truncated c)(num_pcs := truncated_pc (pc_table c i))\<rparr>"
      have step: "cover_loop c cov_size i num_pcs = cover_loop ?c1 cov_size (i + 1) (num_pcs + 1)"
        using lt nz ne bound by (simp add: cover_loop.simps [of c cov_size i num_pcs])
      have pre: "num_pcs + 1 + length (hit_slots ?c1 (i + 1) cov_size) \<le> MAX_COVSZ"
        using "1.prems" hs by simp
      have nb: "\<not> \<not> num_pcs < MAX_COVSZ" using bound by simp
      have ih: "cover_loop ?c1 cov_size (i + 1) (num_pcs + 1) =
         Inr (?c1\<lparr>real_coverage_truncated :=
            stored (real_coverage_truncated ?c1) (num_pcs + 1)
              (map (\<lambda>j. truncated_pc (pc_table ?c1 j)) (hit_slots ?c1 (i + 1) cov_size))\<rparr>,
          num_pcs + 1 + length (hit_slots ?c1 (i + 1) cov_size))"
        using "1.IH"(3) [OF lt nz ne nb pre] .
      show ?thesis
        unfolding step ih by (simp add: hs stored_Cons)
    qed
  qed
qed

lemma cover_collect_cases:
  "cover_collect c cov env =
     (if coverage_ctl_status env \<noteq> ZX_OK then Inl (Fail_fetch_coverage (coverage_ctl_status env))
      else if vmo_read_status env \<noteq> ZX_OK then Inl (Fail_copy_coverage (vmo_read_status env))
      else case files env kCovPcsFileName of
             None \<Rightarrow> Inl (Fail_open_coverage_file kCovPcsFileName)
           | Some vals \<Rightarrow>
               if MAX_COVSZ \<le> length vals then Inl Fail_pc_table_too_small
               else Inr ((collect_ctx c env vals)\<lparr>real_coverage_truncated :=
                            stored (real_coverage_truncated c) 0
                              (hit_values (collect_ctx c env vals) (length vals))\<rparr>,
                         cov\<lparr>cover_t_size :=
                               of_nat (length (hit_slots (collect_ctx c env vals) 0 (length vals))),
                             cover_t_data :=
                               stored (real_coverage_truncated c) 0
                                 (hit_values (collect_ctx c env vals) (length vals))\<rparr>))"
proof (cases "coverage_ctl_status env = ZX_OK \<and> vmo_read_status env = ZX_OK")
  case False
  then show ?thesis
    by (auto simp: cover_collect_def snapshot_covcount_def)
next
  case ok: True
  show ?thesis
  proof (cases "files env kCovPcsFileName")
    case None
    with ok show ?thesis
      by (simp add: cover_collect_def snapshot_covcount_def snapshot_pctable_def
          snapshot_sancov_def)
  next
    case (Some vals)
    show ?thesis
    proof (cases "MAX_COVSZ \<le> length vals")
      case True
      with ok Some show ?thesis
        by (simp add: cover_collect_def snapshot_covcount_def snapshot_pctable_def
            snapshot_sancov_def fread_def)
    next
      case False
      let ?c1 = "collect_ctx c env vals"
      have n: "min MAX_COVSZ (length vals) = length vals" using False by simp
      have "length (hit_slots ?c1 0 (length vals)) \<le> length vals"
        using length_hit_slots [of ?c1 0 "length vals"] by simp
      with False have "0 + length (hit_slots ?c1 0 (length vals)) \<le> MAX_COVSZ" by simp
      from cover_loop_result [OF this]
      have loop: "cover_loop ?c1 (length vals) 0 0 =
        Inr (?c1\<lparr>real_coverage_truncated :=
                 stored (real_coverage_truncated ?c1) 0 (hit_values ?c1 (length vals))\<rparr>,
             length (hit_slots ?c1 0 (length vals)))"
        by (simp add: hit_values_def)
      have c1: "c\<lparr>curr_covcount := \<lambda>i. if i < MAX_COVSZ then vmo_counts env i else curr_covcount c i,
                 pc_table := \<lambda>i. if i < length vals then vals ! i else pc_table c i,
                 total_pcs := length vals\<rparr> = ?c1"
        by (simp add: collect_ctx_def)
      have rct: "real_coverage_truncated ?c1 = real_coverage_truncated c"
        by (simp add: collect_ctx_def)
      have cnt: "snapshot_covcount (curr_covcount c) MAX_COVSZ env =
          Inr (\<lambda>i. if i < MAX_COVSZ then vmo_counts env i else curr_covcount c i)"
        using ok by (simp add: snapshot_covcount_def)
      have pcs: "snapshot_pctable (pc_table c) MAX_COVSZ (files env) =
          Inr (length vals, \<lambda>i. if i < length vals then vals ! i else pc_table c i)"
        using Some False
        by (simp add: snapshot_pctable_def snapshot_sancov_def fread_def Let_def n)
      from ok Some False show ?thesis
        by (simp add: cover_collect_def cnt pcs c1 loop rct)
    qed
  qed
qed

lemma stored_prefix: "map (stored t 0 vs) [0..<length vs] = vs"
  by (rule nth_equalityI) (simp_all add: stored_def)

lemma stored_beyond: "length vs \<le> k \<Longrightarrow> stored t 0 vs k = t k"
  by (simp add: stored_def)

lemma stored_nth: "k < length vs \<Longrightarrow> stored t 0 vs k = vs ! k"
  by (simp add: stored_def)

lemma length_hit_values [simp]: "length (hit_values c n) = length (hit_slots c 0 n)"
  by (simp add: hit_values_def)

lemma unat_hit_count:
  assumes "n < MAX_COVSZ"
  shows "unat (of_nat (length (hit_slots c 0 n)) :: uint32) = length (hit_slots c 0 n)"
proof -
  have "length (hit_slots c 0 n) \<le> n"
    using length_hit_slots [of c 0 n] by simp
  with assms have "length (hit_slots c 0 n) < 2 ^ 32"
    by (simp add: MAX_COVSZ_def)
  then show ?thesis
    by (simp add: unat_of_nat)
qed


text \<open>What a successful \<open>cover_collect\<close> leaves behind.\<close>
lemma cover_collect_ok:
  assumes "coverage_ctl_status env = ZX_OK" and "vmo_read_status env = ZX_OK"
    and "files env kCovPcsFileName = Some vals" and "length vals < MAX_COVSZ"
  shows "cover_collect c cov env = Inr (collected_ctx c env vals, collected_cov c cov env vals)"
  using assms by (simp add: cover_collect_cases collected_ctx_def collected_cov_def)

lemma collected_total: "total_pcs (collected_ctx c env vals) = length vals"
  by (simp add: collected_ctx_def collect_ctx_def)

lemma collected_base: "base_covcount (collected_ctx c env vals) = base_covcount c"
  by (simp add: collected_ctx_def collect_ctx_def)

lemma collected_curr:
  "i < MAX_COVSZ \<Longrightarrow> curr_covcount (collected_ctx c env vals) i = vmo_counts env i"
  by (simp add: collected_ctx_def collect_ctx_def)

lemma collected_pcs: "i < length vals \<Longrightarrow> pc_table (collected_ctx c env vals) i = vals ! i"
  by (simp add: collected_ctx_def collect_ctx_def)

lemma collected_hit_slots:
  "hit_slots (collected_ctx c env vals) i n = hit_slots (collect_ctx c env vals) i n"
  by (simp add: collected_ctx_def)

lemma collected_hit_values:
  "hit_values (collected_ctx c env vals) n = hit_values (collect_ctx c env vals) n"
  by (simp add: collected_ctx_def hit_values_def)

lemma collected_table:
  "real_coverage_truncated (collected_ctx c env vals) =
     stored (real_coverage_truncated c) 0 (hit_values (collected_ctx c env vals) (length vals))"
  unfolding collected_hit_values by (simp add: collected_ctx_def)

lemma collected_data:
  "cover_t_data (collected_cov c cov env vals) = real_coverage_truncated (collected_ctx c env vals)"
  by (simp add: collected_ctx_def collected_cov_def)

lemma collected_size:
  assumes "length vals < MAX_COVSZ"
  shows "unat (cover_t_size (collected_cov c cov env vals)) =
           length (hit_slots (collected_ctx c env vals) 0 (length vals))"
  unfolding collected_hit_slots
  using unat_hit_count [OF assms, of "collect_ctx c env vals"] by (simp add: collected_cov_def)

lemma collected_nth:
  assumes "length vals < MAX_COVSZ" and "k < unat (cover_t_size (collected_cov c cov env vals))"
  shows "real_coverage_truncated (collected_ctx c env vals) k =
           truncated_pc (pc_table (collected_ctx c env vals)
                           (hit_slots (collected_ctx c env vals) 0 (length vals) ! k))"
proof -
  let ?c' = "collected_ctx c env vals"
  from assms have k: "k < length (hit_values ?c' (length vals))"
    by (simp add: collected_size)
  have "real_coverage_truncated ?c' k = hit_values ?c' (length vals) ! k"
    by (subst collected_table) (rule stored_nth [OF k])
  then show ?thesis using k by (simp add: hit_values_def)
qed

lemma collected_beyond:
  assumes "length vals < MAX_COVSZ" and "unat (cover_t_size (collected_cov c cov env vals)) \<le> k"
  shows "real_coverage_truncated (collected_ctx c env vals) k = real_coverage_truncated c k"
proof -
  let ?c' = "collected_ctx c env vals"
  from assms have k: "length (hit_values ?c' (length vals)) \<le> k"
    by (simp add: collected_size)
  show ?thesis by (subst collected_table) (rule stored_beyond [OF k])
qed

lemma collected_cov_table:
  assumes "length vals < MAX_COVSZ"
  shows "cov_table (collected_cov c cov env vals) =
           hit_values (collected_ctx c env vals) (length vals)"
proof -
  let ?c' = "collected_ctx c env vals"
  have "cov_table (collected_cov c cov env vals) =
          map (stored (real_coverage_truncated c) 0 (hit_values ?c' (length vals)))
            [0..<length (hit_values ?c' (length vals))]"
    by (simp add: cov_table_def collected_data collected_table [symmetric]
        collected_size [OF assms])
  then show ?thesis by (simp only: stored_prefix)
qed

lemma cover_collect_failures:
  assumes "\<not> (coverage_ctl_status env = ZX_OK \<and> vmo_read_status env = ZX_OK \<and>
              (\<exists>vals. files env kCovPcsFileName = Some vals \<and> length vals < MAX_COVSZ))"
  shows "cover_collect c cov env \<in>
           {Inl (Fail_fetch_coverage (coverage_ctl_status env)),
            Inl (Fail_copy_coverage (vmo_read_status env)),
            Inl (Fail_open_coverage_file kCovPcsFileName),
            Inl Fail_pc_table_too_small}"
  using assms by (cases "files env kCovPcsFileName") (auto simp: cover_collect_cases)

lemma cover_collect_Inr:
  assumes "cover_collect c cov env = Inr (c', cov')"
  shows "\<exists>vals. files env kCovPcsFileName = Some vals \<and> length vals < MAX_COVSZ \<and>
           c' = collected_ctx c env vals \<and> cov' = collected_cov c cov env vals"
proof (cases "coverage_ctl_status env = ZX_OK \<and> vmo_read_status env = ZX_OK \<and>
              (\<exists>vals. files env kCovPcsFileName = Some vals \<and> length vals < MAX_COVSZ)")
  case False
  from cover_collect_failures [OF this, of c cov] assms show ?thesis by auto
next
  case True
  then obtain vals where ok: "coverage_ctl_status env = ZX_OK" "vmo_read_status env = ZX_OK"
      "files env kCovPcsFileName = Some vals" "length vals < MAX_COVSZ"
    by blast
  from cover_collect_ok [OF ok, of c cov] assms
  have "c' = collected_ctx c env vals" "cov' = collected_cov c cov env vals" by simp_all
  with ok show ?thesis by blast
qed

subsection \<open>Coverage differ\<close>

text \<open>
  Claim C1. Whenever the kernel calls succeed and the location file holds fewer than
  \<open>MAX_COVSZ\<close> values, \<open>cover_collect\<close> returns; the location table, the current and
  the baseline counters of the slots below \<open>total_pcs\<close> are the file's values, the VMO's
  counters and the baseline of the call; the result table, of \<open>cover_t_size\<close> entries
  found at \<open>cover_t_data\<close>, lists the slots below \<open>total_pcs\<close> with a non-zero location
  and a counter different from the baseline, in increasing order of the slots, each as its
  fixed-up truncated location, and the result size is the number of those slots. A slot
  whose counter equals its baseline is not in the result, whatever happened to the counter
  in between: when no counter differs, the result is empty.
\<close>
theorem cover_collect_hits:
  assumes "coverage_ctl_status env = ZX_OK" and "vmo_read_status env = ZX_OK"
    and "files env kCovPcsFileName = Some vals" and "length vals < MAX_COVSZ"
  shows "\<exists>c' cov'. cover_collect c cov env = Inr (c', cov') \<and>
      total_pcs c' = length vals \<and>
      (\<forall>i<total_pcs c'. pc_table c' i = vals ! i \<and> curr_covcount c' i = vmo_counts env i \<and>
          base_covcount c' i = base_covcount c i) \<and>
      cover_t_data cov' = real_coverage_truncated c' \<and>
      cov_table cov' =
        map (\<lambda>i. truncated_pc (pc_table c' i))
          (filter (\<lambda>i. pc_table c' i \<noteq> 0 \<and> base_covcount c' i \<noteq> curr_covcount c' i)
             [0..<total_pcs c']) \<and>
      unat (cover_t_size cov') =
        length (filter (\<lambda>i. pc_table c' i \<noteq> 0 \<and> base_covcount c' i \<noteq> curr_covcount c' i)
                  [0..<total_pcs c']) \<and>
      ((\<forall>i<total_pcs c'. base_covcount c' i = curr_covcount c' i) \<longrightarrow> cov_table cov' = [])"
proof -
  let ?c' = "collected_ctx c env vals" and ?cov' = "collected_cov c cov env vals"
  let ?hit = "\<lambda>i. pc_table ?c' i \<noteq> 0 \<and> base_covcount ?c' i \<noteq> curr_covcount ?c' i"
  have res: "cover_collect c cov env = Inr (?c', ?cov')"
    using assms by (rule cover_collect_ok)
  have n: "total_pcs ?c' = length vals"
    by (rule collected_total)
  have slots: "\<forall>i<total_pcs ?c'. pc_table ?c' i = vals ! i \<and>
      curr_covcount ?c' i = vmo_counts env i \<and> base_covcount ?c' i = base_covcount c i"
    using assms(4) by (simp add: n collected_pcs collected_curr collected_base)
  have data: "cover_t_data ?cov' = real_coverage_truncated ?c'"
    by (rule collected_data)
  have table: "cov_table ?cov' =
      map (\<lambda>i. truncated_pc (pc_table ?c' i)) (filter ?hit [0..<total_pcs ?c'])"
    unfolding n collected_cov_table [OF assms(4)] hit_values_def hit_slots_def ..
  have size: "unat (cover_t_size ?cov') = length (filter ?hit [0..<total_pcs ?c'])"
    unfolding n collected_size [OF assms(4)] hit_slots_def ..
  have empty: "(\<forall>i<total_pcs ?c'. base_covcount ?c' i = curr_covcount ?c' i)
      \<longrightarrow> cov_table ?cov' = []"
    unfolding table by (simp add: filter_empty_conv)
  from res n slots data table size empty show ?thesis
    by (intro exI [of _ ?c'] exI [of _ ?cov'] conjI)
qed

theorem cover_collect_hits_witness:
  "\<exists>c' cov'. cover_collect (example_ctx [0, 5, 1, 7]) example_cov
        (example_env [0xA0, 0xB0, 0, 0xD0] [0, 6, 2, 3]) = Inr (c', cov') \<and>
     total_pcs c' = 4 \<and> cov_table cov' = [0xB1, 0xD1] \<and> unat (cover_t_size cov') = 2"
proof -
  let ?env = "example_env [0xA0, 0xB0, 0, 0xD0] [0, 6, 2, 3]"
  have h1: "coverage_ctl_status ?env = ZX_OK" and h2: "vmo_read_status ?env = ZX_OK"
    and h3: "files ?env kCovPcsFileName = Some [0xA0, 0xB0, 0, 0xD0]"
    and h4: "length [0xA0, 0xB0, 0, 0xD0 :: uint64] < MAX_COVSZ"
    by (simp_all add: example_env_def MAX_COVSZ_def)
  from cover_collect_hits [OF h1 h2 h3 h4, of "example_ctx [0, 5, 1, 7]" example_cov]
  obtain c' cov' where res: "cover_collect (example_ctx [0, 5, 1, 7]) example_cov ?env = Inr (c', cov')"
    and n: "total_pcs c' = 4"
    and slots: "\<forall>i<total_pcs c'. pc_table c' i = [0xA0, 0xB0, 0, 0xD0] ! i \<and>
          curr_covcount c' i = vmo_counts ?env i \<and>
          base_covcount c' i = base_covcount (example_ctx [0, 5, 1, 7]) i"
    and table: "cov_table cov' =
        map (\<lambda>i. truncated_pc (pc_table c' i))
          (filter (\<lambda>i. pc_table c' i \<noteq> 0 \<and> base_covcount c' i \<noteq> curr_covcount c' i)
             [0..<total_pcs c'])"
    and size: "unat (cover_t_size cov') =
        length (filter (\<lambda>i. pc_table c' i \<noteq> 0 \<and> base_covcount c' i \<noteq> curr_covcount c' i)
                  [0..<total_pcs c'])"
    by auto
  have up: "[0..<4] = [0, Suc 0, 2, 3]" by (simp add: upt_rec)
  have s0: "pc_table c' 0 = 0xA0" "curr_covcount c' 0 = 0" "base_covcount c' 0 = 0"
    and s1: "pc_table c' (Suc 0) = 0xB0" "curr_covcount c' (Suc 0) = 6" "base_covcount c' (Suc 0) = 5"
    and s2: "pc_table c' 2 = 0" "curr_covcount c' 2 = 2" "base_covcount c' 2 = 1"
    and s3: "pc_table c' 3 = 0xD0" "curr_covcount c' 3 = 3" "base_covcount c' 3 = 7"
    using slots n by (simp_all add: example_env_def example_ctx_def array_of_def)
  have "cov_table cov' = [0xB1, 0xD1]"
    unfolding table n up by (simp add: s0 s1 s2 s3 truncated_pc_def kPcFixup_def)
  moreover have "unat (cover_t_size cov') = 2"
    unfolding size n up by (simp add: s0 s1 s2 s3)
  ultimately show ?thesis using res n by blast
qed

text \<open>
  Claim C2. Whenever \<open>cover_collect\<close> returns, the \<open>k\<close>-th entry of
  \<open>real_coverage_truncated\<close>, for \<open>k\<close> below the result size, is the location \<open>v\<close> of the
  \<open>k\<close>-th hit slot reported as \<open>(v + 1) AND 0xFFFFFFFF\<close>, cut to 32 bits: a location
  \<open>0xFFFFFFFF\<close> is reported as \<open>0\<close>, and a location \<open>0x100000000\<close> as \<open>1\<close>.
\<close>
theorem cover_collect_truncation:
  assumes "coverage_ctl_status env = ZX_OK" and "vmo_read_status env = ZX_OK"
    and "files env kCovPcsFileName = Some vals" and "length vals < MAX_COVSZ"
  shows "\<exists>c' cov'. cover_collect c cov env = Inr (c', cov') \<and>
      unat (cover_t_size cov') = length (hit_slots c' 0 (total_pcs c')) \<and>
      (\<forall>k<unat (cover_t_size cov').
         real_coverage_truncated c' k =
           ucast ((pc_table c' (hit_slots c' 0 (total_pcs c') ! k) + 1) AND 0xFFFFFFFF) \<and>
         (pc_table c' (hit_slots c' 0 (total_pcs c') ! k) = 0xFFFFFFFF
            \<longrightarrow> real_coverage_truncated c' k = 0) \<and>
         (pc_table c' (hit_slots c' 0 (total_pcs c') ! k) = 0x100000000
            \<longrightarrow> real_coverage_truncated c' k = 1))"
proof -
  let ?c' = "collected_ctx c env vals" and ?cov' = "collected_cov c cov env vals"
  let ?pc = "\<lambda>k. pc_table ?c' (hit_slots ?c' 0 (total_pcs ?c') ! k)"
  have res: "cover_collect c cov env = Inr (?c', ?cov')"
    using assms by (rule cover_collect_ok)
  have size: "unat (cover_t_size ?cov') = length (hit_slots ?c' 0 (total_pcs ?c'))"
    unfolding collected_total by (rule collected_size [OF assms(4)])
  have val: "real_coverage_truncated ?c' k = ucast ((?pc k + 1) AND 0xFFFFFFFF)"
    if "k < unat (cover_t_size ?cov')" for k
    using collected_nth [OF assms(4) that]
    unfolding truncated_pc_def kPcFixup_def collected_total .
  have vals: "\<forall>k<unat (cover_t_size ?cov').
         real_coverage_truncated ?c' k = ucast ((?pc k + 1) AND 0xFFFFFFFF) \<and>
         (?pc k = 0xFFFFFFFF \<longrightarrow> real_coverage_truncated ?c' k = 0) \<and>
         (?pc k = 0x100000000 \<longrightarrow> real_coverage_truncated ?c' k = 1)"
  proof (intro allI impI conjI)
    fix k assume k: "k < unat (cover_t_size ?cov')"
    show "real_coverage_truncated ?c' k = ucast ((?pc k + 1) AND 0xFFFFFFFF)"
      using k by (rule val)
    show "real_coverage_truncated ?c' k = 0" if "?pc k = 0xFFFFFFFF"
      using val [OF k] unfolding that by simp
    show "real_coverage_truncated ?c' k = 1" if "?pc k = 0x100000000"
      using val [OF k] unfolding that by simp
  qed
  from res size vals show ?thesis
    by (intro exI [of _ ?c'] exI [of _ ?cov'] conjI)
qed

theorem cover_collect_truncation_witness:
  "\<exists>c' cov'. cover_collect (example_ctx [0, 0]) example_cov
        (example_env [0xFFFFFFFF, 0x100000000] [1, 1]) = Inr (c', cov') \<and>
     unat (cover_t_size cov') = 2 \<and>
     real_coverage_truncated c' 0 = 0 \<and> real_coverage_truncated c' 1 = 1"
proof -
  let ?vals = "[0xFFFFFFFF, 0x100000000] :: uint64 list"
  let ?env = "example_env ?vals [1, 1]"
  let ?c = "example_ctx [0, 0]"
  have h1: "coverage_ctl_status ?env = ZX_OK" and h2: "vmo_read_status ?env = ZX_OK"
    and h3: "files ?env kCovPcsFileName = Some ?vals"
    and h4: "length ?vals < MAX_COVSZ"
    by (simp_all add: example_env_def MAX_COVSZ_def)
  from cover_collect_truncation [OF h1 h2 h3 h4, of ?c example_cov]
  obtain c' cov' where res: "cover_collect ?c example_cov ?env = Inr (c', cov')"
    and size: "unat (cover_t_size cov') = length (hit_slots c' 0 (total_pcs c'))"
    and vals: "\<forall>k<unat (cover_t_size cov').
         (pc_table c' (hit_slots c' 0 (total_pcs c') ! k) = 0xFFFFFFFF
            \<longrightarrow> real_coverage_truncated c' k = 0) \<and>
         (pc_table c' (hit_slots c' 0 (total_pcs c') ! k) = 0x100000000
            \<longrightarrow> real_coverage_truncated c' k = 1)"
    by auto
  from res have c': "c' = collected_ctx ?c ?env ?vals"
    by (simp add: cover_collect_ok [OF h1 h2 h3 h4])
  have n: "total_pcs c' = 2" by (simp add: c' collected_total)
  have slots: "hit_slots c' 0 2 = [0, 1]"
    by (simp add: c' hit_slots_def collected_ctx_def collect_ctx_def example_ctx_def
        example_env_def array_of_def MAX_COVSZ_def upt_rec)
  have p0: "pc_table c' 0 = 0xFFFFFFFF" and p1: "pc_table c' (Suc 0) = 0x100000000"
    by (simp_all add: c' collected_pcs)
  have sz: "unat (cover_t_size cov') = 2" using size by (simp add: n slots)
  from vals [rule_format, of 0] have "real_coverage_truncated c' 0 = 0"
    by (simp add: sz n slots p0)
  moreover from vals [rule_format, of 1] have "real_coverage_truncated c' 1 = 1"
    by (simp add: sz n slots p1)
  ultimately show ?thesis using res sz by blast
qed

text \<open>
  Claim C10. \<open>cover_collect\<close> never stores outside \<open>real_coverage_truncated\<close>: the
  out-of-bounds failure does not occur for any input. When it returns, the \<open>k\<close>-th hit
  is at index \<open>k\<close>, the entries from the result size on are those of the table before the
  call, the result size is the number of hit slots, which is at most \<open>total_pcs\<close>, which is
  at most the capacity \<open>MAX_COVSZ = 2 ^ 20\<close>, and the result refers to that table.
\<close>
theorem cover_collect_in_bounds:
  "cover_collect c cov env \<noteq> Inl Out_of_bounds \<and>
   (\<forall>c' cov'. cover_collect c cov env = Inr (c', cov') \<longrightarrow>
      unat (cover_t_size cov') \<le> total_pcs c' \<and> total_pcs c' \<le> MAX_COVSZ \<and>
      MAX_COVSZ = 2 ^ 20 \<and>
      unat (cover_t_size cov') = length (hit_slots c' 0 (total_pcs c')) \<and>
      (\<forall>k<unat (cover_t_size cov').
         real_coverage_truncated c' k =
           truncated_pc (pc_table c' (hit_slots c' 0 (total_pcs c') ! k))) \<and>
      (\<forall>k. unat (cover_t_size cov') \<le> k \<longrightarrow>
         real_coverage_truncated c' k = real_coverage_truncated c k) \<and>
      cover_t_data cov' = real_coverage_truncated c')"
proof (cases "coverage_ctl_status env = ZX_OK \<and> vmo_read_status env = ZX_OK \<and>
              (\<exists>vals. files env kCovPcsFileName = Some vals \<and> length vals < MAX_COVSZ)")
  case False
  from cover_collect_failures [OF this, of c cov]
  have "\<exists>e. cover_collect c cov env = Inl e \<and> e \<noteq> Out_of_bounds" by auto
  then obtain e where "cover_collect c cov env = Inl e" and "e \<noteq> Out_of_bounds" by blast
  then show ?thesis by simp
next
  case True
  then obtain vals where ok: "coverage_ctl_status env = ZX_OK" "vmo_read_status env = ZX_OK"
      "files env kCovPcsFileName = Some vals" "length vals < MAX_COVSZ"
    by blast
  let ?c' = "collected_ctx c env vals" and ?cov' = "collected_cov c cov env vals"
  have res: "cover_collect c cov env = Inr (?c', ?cov')"
    using ok by (rule cover_collect_ok)
  have n: "total_pcs ?c' = length vals" by (rule collected_total)
  have size: "unat (cover_t_size ?cov') = length (hit_slots ?c' 0 (total_pcs ?c'))"
    unfolding n by (rule collected_size [OF ok(4)])
  have le: "unat (cover_t_size ?cov') \<le> total_pcs ?c'"
    unfolding size using length_hit_slots [of ?c' 0 "total_pcs ?c'"] by simp
  have cap: "total_pcs ?c' \<le> MAX_COVSZ" using ok(4) by (simp add: n)
  have pow: "MAX_COVSZ = 2 ^ 20" by (simp add: MAX_COVSZ_def)
  have inside: "\<forall>k<unat (cover_t_size ?cov'). real_coverage_truncated ?c' k =
           truncated_pc (pc_table ?c' (hit_slots ?c' 0 (total_pcs ?c') ! k))"
    unfolding n using collected_nth [OF ok(4)] by blast
  have outside: "\<forall>k. unat (cover_t_size ?cov') \<le> k \<longrightarrow>
         real_coverage_truncated ?c' k = real_coverage_truncated c k"
    using collected_beyond [OF ok(4)] by blast
  have data: "cover_t_data ?cov' = real_coverage_truncated ?c'"
    by (rule collected_data)
  show ?thesis
  proof (intro conjI allI impI)
    show "cover_collect c cov env \<noteq> Inl Out_of_bounds" by (simp add: res)
  next
    fix c'' cov'' assume "cover_collect c cov env = Inr (c'', cov'')"
    with res have eq: "c'' = ?c'" "cov'' = ?cov'" by simp_all
    show "unat (cover_t_size cov'') \<le> total_pcs c''" unfolding eq by (rule le)
    show "total_pcs c'' \<le> MAX_COVSZ" unfolding eq by (rule cap)
    show "MAX_COVSZ = 2 ^ 20" by (rule pow)
    show "unat (cover_t_size cov'') = length (hit_slots c'' 0 (total_pcs c''))"
      unfolding eq by (rule size)
    show "cover_t_data cov'' = real_coverage_truncated c''" unfolding eq by (rule data)
    show "real_coverage_truncated c'' k = real_coverage_truncated c k"
      if "unat (cover_t_size cov'') \<le> k" for k
      using that outside unfolding eq by blast
    show "real_coverage_truncated c'' k =
        truncated_pc (pc_table c'' (hit_slots c'' 0 (total_pcs c'') ! k))"
      if "k < unat (cover_t_size cov'')" for k
      using that inside unfolding eq by blast
  qed
qed

theorem cover_collect_in_bounds_witness:
  "\<exists>c' cov'. cover_collect (example_ctx [0, 5]) example_cov
        (example_env [0xA0, 0xB0] [0, 6]) = Inr (c', cov') \<and>
      unat (cover_t_size cov') \<le> total_pcs c' \<and> total_pcs c' \<le> MAX_COVSZ \<and>
      real_coverage_truncated c' 7 = 0"
proof -
  let ?vals = "[0xA0, 0xB0] :: uint64 list"
  let ?env = "example_env ?vals [0, 6]"
  let ?c = "example_ctx [0, 5]"
  have h1: "coverage_ctl_status ?env = ZX_OK" and h2: "vmo_read_status ?env = ZX_OK"
    and h3: "files ?env kCovPcsFileName = Some ?vals"
    and h4: "length ?vals < MAX_COVSZ"
    by (simp_all add: example_env_def MAX_COVSZ_def)
  let ?c' = "collected_ctx ?c ?env ?vals" and ?cov' = "collected_cov ?c example_cov ?env ?vals"
  have res: "cover_collect ?c example_cov ?env = Inr (?c', ?cov')"
    using h1 h2 h3 h4 by (rule cover_collect_ok)
  from cover_collect_in_bounds [of ?c example_cov ?env] res
  have b: "unat (cover_t_size ?cov') \<le> total_pcs ?c'" "total_pcs ?c' \<le> MAX_COVSZ"
    and out: "\<forall>k. unat (cover_t_size ?cov') \<le> k \<longrightarrow>
         real_coverage_truncated ?c' k = real_coverage_truncated ?c k"
    by blast+
  from b(1) have "unat (cover_t_size ?cov') \<le> 7" by (simp add: collected_total)
  with out have "real_coverage_truncated ?c' 7 = real_coverage_truncated ?c 7" by blast
  then have "real_coverage_truncated ?c' 7 = 0" by (simp add: example_ctx_def array_of_def)
  with res b show ?thesis by blast
qed

subsection \<open>Return-code normaliser\<close>

text \<open>
  Claim C3. For a call whose name starts with \<open>zx_\<close>, a raw result equal to \<open>ZX_OK\<close> is
  normalised to \<open>0\<close>; for the five calls named in the source (debug-log read, clock and
  tick queries, deadline computation), every raw result is normalised to \<open>0\<close>. The
  thread-local variables are left as they were.
\<close>
theorem execute_syscall_success:
  "(strncmp_is_0 (call_name c) ''zx_'' 3 \<and> res = scast ZX_OK
      \<longrightarrow> execute_syscall c res tls = (0, tls)) \<and>
   (call_name c \<in> {''zx_debuglog_read'', ''zx_clock_get'', ''zx_clock_get_monotonic'',
                     ''zx_deadline_after'', ''zx_ticks_get''}
      \<longrightarrow> execute_syscall c res tls = (0, tls))"
  by (auto simp: execute_syscall_def strncmp_is_0_def strcmp_is_0_def)

theorem execute_syscall_success_witness:
  "strncmp_is_0 (call_name \<lparr>call_name = ''zx_handle_close''\<rparr>) ''zx_'' 3 \<and>
   (0 :: intptr) = scast ZX_OK \<and>
   execute_syscall \<lparr>call_name = ''zx_handle_close''\<rparr> 0 example_tls = (0, example_tls) \<and>
   execute_syscall \<lparr>call_name = ''zx_ticks_get''\<rparr> 123456789 example_tls = (0, example_tls)"
  using execute_syscall_success [of "\<lparr>call_name = ''zx_handle_close''\<rparr>" 0 example_tls]
    execute_syscall_success [of "\<lparr>call_name = ''zx_ticks_get''\<rparr>" 123456789 example_tls]
  by (simp add: strncmp_is_0_def ZX_OK_def)

text \<open>
  Claim C4. For a call whose name starts with \<open>zx_\<close>, is none of the five calls named in
  the source, and whose raw result is not zero, the normaliser returns \<open>- 1\<close> and stores
  the negated raw result, masked with \<open>0x7F\<close>, in \<open>errno\<close>; nothing else of the
  thread-local variables changes. A raw result of \<open>- 5\<close> gives \<open>- 1\<close> and the stored code
  \<open>5 AND 0x7F\<close>.
\<close>
theorem execute_syscall_failure:
  assumes "strncmp_is_0 (call_name c) ''zx_'' 3"
    and "call_name c \<notin> {''zx_debuglog_read'', ''zx_clock_get'', ''zx_clock_get_monotonic'',
                     ''zx_deadline_after'', ''zx_ticks_get''}"
    and "res \<noteq> 0"
  shows "execute_syscall c res tls = (- 1, tls\<lparr>errno := ucast ((- res) AND 0x7F)\<rparr>) \<and>
         (res = - 5 \<longrightarrow> execute_syscall c res tls = (- 1, tls\<lparr>errno := 5 AND 0x7F\<rparr>))"
  using assms by (auto simp: execute_syscall_def strcmp_is_0_def ZX_OK_def)

theorem execute_syscall_failure_witness:
  "execute_syscall \<lparr>call_name = ''zx_handle_close''\<rparr> (- 5) example_tls
     = (- 1, example_tls\<lparr>errno := 5\<rparr>)"
  using execute_syscall_failure [of "\<lparr>call_name = ''zx_handle_close''\<rparr>" "- 5" example_tls]
  by (simp add: strncmp_is_0_def)

text \<open>
  Claim C5. For a call whose name does not start with \<open>zx_\<close>, a raw result equal to the
  32-bit all-ones pattern \<open>0xFFFFFFFF\<close> is returned as the full-width \<open>- 1\<close>, and every
  other raw result is returned as it is; the thread-local variables are left as they were.
\<close>
theorem execute_syscall_conventional:
  assumes "\<not> strncmp_is_0 (call_name c) ''zx_'' 3"
  shows "execute_syscall c res tls = (if res = 0xFFFFFFFF then (- 1, tls) else (res, tls))"
  using assms by (simp add: execute_syscall_def)

theorem execute_syscall_conventional_witness:
  "execute_syscall \<lparr>call_name = ''open''\<rparr> 0xFFFFFFFF example_tls
     = (0xFFFFFFFFFFFFFFFF, example_tls) \<and>
   execute_syscall \<lparr>call_name = ''open''\<rparr> 0x1 example_tls = (0x1, example_tls)"
  using execute_syscall_conventional [of "\<lparr>call_name = ''open''\<rparr>" "0xFFFFFFFF" example_tls]
    execute_syscall_conventional [of "\<lparr>call_name = ''open''\<rparr>" "0x1" example_tls]
  by (simp add: strncmp_is_0_def)

subsection \<open>Snapshot reader\<close>

text \<open>
  Claim C7. Reading the location table fails if and only if the file cannot be opened or
  the number of values read equals the capacity \<open>elems\<close>. The number of values read is
  the smaller of the capacity and the number of values in the file; when it is not the
  capacity, the call returns it with the filled buffer. A file that holds exactly
  \<open>elems\<close> values makes the call fail.
\<close>
theorem snapshot_pctable_fatal:
  "(isl (snapshot_pctable dst elems fs) \<longleftrightarrow>
      (fs kCovPcsFileName = None \<or>
       (\<exists>vals. fs kCovPcsFileName = Some vals \<and> fst (fread dst elems vals) = elems))) \<and>
   (\<forall>vals. fs kCovPcsFileName = Some vals \<longrightarrow>
      fst (fread dst elems vals) = min elems (length vals) \<and>
      (fst (fread dst elems vals) \<noteq> elems \<longrightarrow>
         snapshot_pctable dst elems fs = Inr (fread dst elems vals)) \<and>
      (length vals = elems \<longrightarrow> snapshot_pctable dst elems fs = Inl Fail_pc_table_too_small))"
  by (cases "fs kCovPcsFileName")
    (auto simp: snapshot_pctable_def snapshot_sancov_def fread_def Let_def)

theorem snapshot_pctable_fatal_witness:
  "fst (fread (array_of []) 3 [10, 20]) = 2 \<and>
   snapshot_pctable (array_of []) 3 (files (example_env [10, 20] []))
     = Inr (fread (array_of []) 3 [10, 20]) \<and>
   snapshot_pctable (array_of []) 2 (files (example_env [10, 20] []))
     = Inl Fail_pc_table_too_small \<and>
   isl (snapshot_pctable (array_of []) 2 (\<lambda>name. None))"
  using snapshot_pctable_fatal [of "array_of []" 3 "files (example_env [10, 20] [])"]
    snapshot_pctable_fatal [of "array_of []" 2 "files (example_env [10, 20] [])"]
    snapshot_pctable_fatal [of "array_of []" 2 "\<lambda>name. None"]
  by (simp add: example_env_def)

subsection \<open>Result reporter\<close>

lemma write_call_output_header:
  "Header r \<in> set (fst (write_call_output g th finished pipe)) \<longleftrightarrow>
     header_wrote pipe = sizeof_call_reply \<and> r = call_reply_of g th finished"
  by (auto simp: write_call_output_def Let_def)

lemma write_call_output_first:
  "header_wrote pipe = sizeof_call_reply \<Longrightarrow>
   hd (fst (write_call_output g th finished pipe)) = Header (call_reply_of g th finished)"
  by (simp add: write_call_output_def Let_def)

lemma reply_fixed_fields:
  "reply_comps_size (call_reply_of g th finished) = 0"
  "reply_done (call_reply_of g th finished) = 0"
  "reply_status (call_reply_of g th finished) = 0"
  by (simp_all add: call_reply_of_def Let_def)

lemma reply_flags_eq:
  "reply_flags (call_reply_of g th finished) =
     (let call_flags = call_flag_executed g OR
                         (if th_id th \<noteq> last_scheduled g then call_flag_blocked g else 0)
      in if finished
         then call_flags OR (call_flag_finished g OR
                (if th_fault_injected th then call_flag_fault_injected g else 0))
         else call_flags)"
  by (simp add: call_reply_of_def Let_def)

lemma reply_reserrno_eq:
  "reply_reserrno (call_reply_of g th finished) =
     (if finished then (if th_res th \<noteq> - 1 then 0 else th_reserrno th) else 999)"
  by (simp add: call_reply_of_def Let_def)

lemma or_and_absorb: "(a OR b) AND a = (a :: 'a::len word)"
  by (simp add: bit_eq_iff bit_and_iff bit_or_iff)

lemma reply_executed:
  "reply_flags (call_reply_of g th finished) AND call_flag_executed g = call_flag_executed g"
  by (simp add: reply_flags_eq Let_def or_and_absorb or.assoc)

lemma disjoint_or:
  fixes f :: "'a::len word"
  assumes "f AND a = 0" and "f AND b = 0"
  shows "(a OR b) AND f = 0"
  using assms by (simp add: bit_eq_iff bit_and_iff bit_or_iff) blast

lemma reply_sizes:
  "reply_signal_size (call_reply_of g th finished) =
     (if flag_coverage g then cover_t_size (th_cov th) else 0)"
  "reply_cover_size (call_reply_of g th finished) =
     (if flag_coverage g \<and> flag_collect_cover g then cover_t_size (th_cov th) else 0)"
  by (simp_all add: call_reply_of_def Let_def)

lemma write_call_output_tables:
  "Table t \<in> set (fst (write_call_output g th finished pipe)) \<Longrightarrow>
     flag_coverage g \<and> t = cov_table (th_cov th)"
  by (auto simp: write_call_output_def Let_def split: if_splits)

text \<open>
  Claim C6. Provided the finished bit and the fault-injected bit each share no bit with
  the executed bit and the blocked bit: the first chunk written is the reply header, and
  every header written has error code \<open>999\<close> and the finished flag clear when
  \<open>finished\<close> is false, has error code \<open>0\<close> and the finished flag set when \<open>finished\<close>
  is true and the result of the call is not \<open>- 1\<close>, and has the fault-injected flag set
  only when \<open>finished\<close> is true.
\<close>
theorem write_call_output_framing:
  assumes "call_flag_finished g AND call_flag_executed g = 0"
    and "call_flag_finished g AND call_flag_blocked g = 0"
    and "call_flag_fault_injected g AND call_flag_executed g = 0"
    and "call_flag_fault_injected g AND call_flag_blocked g = 0"
  shows "(header_wrote pipe = sizeof_call_reply \<longrightarrow>
            hd (fst (write_call_output g th finished pipe)) = Header (call_reply_of g th finished)) \<and>
         (\<forall>r. Header r \<in> set (fst (write_call_output g th finished pipe)) \<longrightarrow>
            (\<not> finished \<longrightarrow>
               reply_reserrno r = 999 \<and> reply_flags r AND call_flag_finished g = 0) \<and>
            (finished \<and> th_res th \<noteq> - 1 \<longrightarrow>
               reply_reserrno r = 0 \<and>
               reply_flags r AND call_flag_finished g = call_flag_finished g) \<and>
            (reply_flags r AND call_flag_fault_injected g \<noteq> 0 \<longrightarrow> finished))"
proof -
  let ?r = "call_reply_of g th finished"
  let ?base = "call_flag_executed g OR
                 (if th_id th \<noteq> last_scheduled g then call_flag_blocked g else 0)"
  have fin0: "?base AND call_flag_finished g = 0"
    using disjoint_or [OF assms(1,2)] assms(1) by (simp add: and.commute)
  have fi0: "?base AND call_flag_fault_injected g = 0"
    using disjoint_or [OF assms(3,4)] assms(3) by (simp add: and.commute)
  have unfinished: "reply_reserrno ?r = 999 \<and> reply_flags ?r AND call_flag_finished g = 0"
    if "\<not> finished"
    using that fin0 by (simp add: reply_reserrno_eq reply_flags_eq Let_def)
  have finished_ok: "reply_reserrno ?r = 0 \<and>
      reply_flags ?r AND call_flag_finished g = call_flag_finished g"
    if "finished" and "th_res th \<noteq> - 1"
  proof -
    have "(?base OR (call_flag_finished g OR
             (if th_fault_injected th then call_flag_fault_injected g else 0)))
          AND call_flag_finished g = call_flag_finished g"
      by (simp add: bit_eq_iff bit_and_iff bit_or_iff) blast
    with that show ?thesis
      by (simp add: reply_reserrno_eq reply_flags_eq Let_def)
  qed
  have fault: "finished" if "reply_flags ?r AND call_flag_fault_injected g \<noteq> 0"
  proof (rule ccontr)
    assume "\<not> finished"
    then have "reply_flags ?r AND call_flag_fault_injected g = 0"
      using fi0 by (simp add: reply_flags_eq Let_def)
    with that show False by simp
  qed
  have body: "(\<not> finished \<longrightarrow>
               reply_reserrno ?r = 999 \<and> reply_flags ?r AND call_flag_finished g = 0) \<and>
            (finished \<and> th_res th \<noteq> - 1 \<longrightarrow>
               reply_reserrno ?r = 0 \<and>
               reply_flags ?r AND call_flag_finished g = call_flag_finished g) \<and>
            (reply_flags ?r AND call_flag_fault_injected g \<noteq> 0 \<longrightarrow> finished)"
    using unfinished finished_ok fault by blast
  have every: "\<forall>r. Header r \<in> set (fst (write_call_output g th finished pipe)) \<longrightarrow>
            (\<not> finished \<longrightarrow>
               reply_reserrno r = 999 \<and> reply_flags r AND call_flag_finished g = 0) \<and>
            (finished \<and> th_res th \<noteq> - 1 \<longrightarrow>
               reply_reserrno r = 0 \<and>
               reply_flags r AND call_flag_finished g = call_flag_finished g) \<and>
            (reply_flags r AND call_flag_fault_injected g \<noteq> 0 \<longrightarrow> finished)"
  proof (intro allI impI)
    fix r assume "Header r \<in> set (fst (write_call_output g th finished pipe))"
    then have r: "r = ?r" by (simp add: write_call_output_header)
    show "(\<not> finished \<longrightarrow>
               reply_reserrno r = 999 \<and> reply_flags r AND call_flag_finished g = 0) \<and>
            (finished \<and> th_res th \<noteq> - 1 \<longrightarrow>
               reply_reserrno r = 0 \<and>
               reply_flags r AND call_flag_finished g = call_flag_finished g) \<and>
            (reply_flags r AND call_flag_fault_injected g \<noteq> 0 \<longrightarrow> finished)"
      unfolding r by (rule body)
  qed
  have first: "header_wrote pipe = sizeof_call_reply \<longrightarrow>
            hd (fst (write_call_output g th finished pipe)) = Header ?r"
    by (simp add: write_call_output_first)
  from first every show ?thesis ..
qed

theorem write_call_output_framing_witness:
  "hd (fst (write_call_output (example_globals False False) (example_thread 0 example_cov)
              False (example_pipe 0)))
     = Header (call_reply_of (example_globals False False) (example_thread 0 example_cov) False) \<and>
   reply_reserrno (call_reply_of (example_globals False False) (example_thread 0 example_cov) False)
     = 999 \<and>
   reply_flags (call_reply_of (example_globals False False) (example_thread 0 example_cov) False)
     AND 2 = 0 \<and>
   reply_reserrno (call_reply_of (example_globals False False) (example_thread 0 example_cov) True)
     = 0 \<and>
   reply_flags (call_reply_of (example_globals False False) (example_thread 0 example_cov) True)
     AND 2 = 2"
proof -
  let ?g = "example_globals False False" and ?th = "example_thread 0 example_cov"
  have h: "call_flag_finished ?g AND call_flag_executed ?g = 0"
      "call_flag_finished ?g AND call_flag_blocked ?g = 0"
      "call_flag_fault_injected ?g AND call_flag_executed ?g = 0"
      "call_flag_fault_injected ?g AND call_flag_blocked ?g = 0"
    by (simp_all add: example_globals_def)
  have w: "header_wrote (example_pipe 0) = sizeof_call_reply"
    by (simp add: example_pipe_def sizeof_call_reply_def)
  have m: "Header (call_reply_of ?g ?th fin)
      \<in> set (fst (write_call_output ?g ?th fin (example_pipe 0)))" for fin
    using w by (simp add: write_call_output_header)
  have r: "th_res ?th \<noteq> - 1" by (simp add: example_thread_def)
  have f: "call_flag_finished ?g = 2" by (simp add: example_globals_def)
  from write_call_output_framing [OF h, of "example_pipe 0" ?th False] w m [of False]
  have a: "hd (fst (write_call_output ?g ?th False (example_pipe 0)))
             = Header (call_reply_of ?g ?th False)"
    and b: "reply_reserrno (call_reply_of ?g ?th False) = 999"
      "reply_flags (call_reply_of ?g ?th False) AND call_flag_finished ?g = 0"
    by blast+
  from write_call_output_framing [OF h, of "example_pipe 0" ?th True] m [of True] r
  have c: "reply_reserrno (call_reply_of ?g ?th True) = 0"
      "reply_flags (call_reply_of ?g ?th True) AND call_flag_finished ?g = call_flag_finished ?g"
    by blast+
  from a b c show ?thesis unfolding f by simp
qed

text \<open>
  Claim C8. With coverage reporting on, the signal-size field of the header is the size
  of the thread's coverage result, and the cover-size field is the same value when
  full-coverage collection is on too, and \<open>0\<close> when it is not; when the writes are taken
  in full, the header is followed by the hit table once, and twice, the same table, when
  full-coverage collection is on. With coverage reporting off, both fields are \<open>0\<close> and
  no table is written. The table has as many entries as the size says, and when the
  coverage result is the one \<open>cover_collect\<close> returned, these are its hits.
\<close>
theorem write_call_output_coverage:
  "(flag_coverage g \<longrightarrow>
      reply_signal_size (call_reply_of g th finished) = cover_t_size (th_cov th) \<and>
      reply_cover_size (call_reply_of g th finished) =
        (if flag_collect_cover g then cover_t_size (th_cov th) else 0)) \<and>
   (\<not> flag_coverage g \<longrightarrow>
      reply_signal_size (call_reply_of g th finished) = 0 \<and>
      reply_cover_size (call_reply_of g th finished) = 0 \<and>
      (\<forall>t. Table t \<notin> set (fst (write_call_output g th finished pipe)))) \<and>
   (header_wrote pipe = sizeof_call_reply \<longrightarrow>
      (\<not> flag_coverage g \<longrightarrow>
         write_call_output g th finished pipe = ([Header (call_reply_of g th finished)], None)) \<and>
      (flag_coverage g \<and> signal_wrote pipe = 4 * ucast (cover_t_size (th_cov th)) \<longrightarrow>
         (\<not> flag_collect_cover g \<longrightarrow>
            write_call_output g th finished pipe =
              ([Header (call_reply_of g th finished), Table (cov_table (th_cov th))], None)) \<and>
         (flag_collect_cover g \<and> cover_wrote pipe = 4 * ucast (cover_t_size (th_cov th)) \<longrightarrow>
            write_call_output g th finished pipe =
              ([Header (call_reply_of g th finished), Table (cov_table (th_cov th)),
                Table (cov_table (th_cov th))], None)))) \<and>
   length (cov_table (th_cov th)) = unat (cover_t_size (th_cov th)) \<and>
   (\<forall>c env cov c'. cover_collect c cov env = Inr (c', th_cov th) \<longrightarrow>
      unat (cover_t_size (th_cov th)) = length (hit_slots c' 0 (total_pcs c')) \<and>
      cov_table (th_cov th) = hit_values c' (total_pcs c'))"
proof -
  have sizes_on: "flag_coverage g \<longrightarrow>
      reply_signal_size (call_reply_of g th finished) = cover_t_size (th_cov th) \<and>
      reply_cover_size (call_reply_of g th finished) =
        (if flag_collect_cover g then cover_t_size (th_cov th) else 0)"
    by (simp add: reply_sizes)
  have off: "\<not> flag_coverage g \<longrightarrow>
      reply_signal_size (call_reply_of g th finished) = 0 \<and>
      reply_cover_size (call_reply_of g th finished) = 0 \<and>
      (\<forall>t. Table t \<notin> set (fst (write_call_output g th finished pipe)))"
    using write_call_output_tables [of _ g th finished pipe] by (auto simp: reply_sizes)
  have out: "header_wrote pipe = sizeof_call_reply \<longrightarrow>
      (\<not> flag_coverage g \<longrightarrow>
         write_call_output g th finished pipe = ([Header (call_reply_of g th finished)], None)) \<and>
      (flag_coverage g \<and> signal_wrote pipe = 4 * ucast (cover_t_size (th_cov th)) \<longrightarrow>
         (\<not> flag_collect_cover g \<longrightarrow>
            write_call_output g th finished pipe =
              ([Header (call_reply_of g th finished), Table (cov_table (th_cov th))], None)) \<and>
         (flag_collect_cover g \<and> cover_wrote pipe = 4 * ucast (cover_t_size (th_cov th)) \<longrightarrow>
            write_call_output g th finished pipe =
              ([Header (call_reply_of g th finished), Table (cov_table (th_cov th)),
                Table (cov_table (th_cov th))], None)))"
    by (simp add: write_call_output_def Let_def)
  have len: "length (cov_table (th_cov th)) = unat (cover_t_size (th_cov th))"
    by (simp add: cov_table_def)
  have latest: "\<forall>c env cov c'. cover_collect c cov env = Inr (c', th_cov th) \<longrightarrow>
      unat (cover_t_size (th_cov th)) = length (hit_slots c' 0 (total_pcs c')) \<and>
      cov_table (th_cov th) = hit_values c' (total_pcs c')"
  proof (intro allI impI)
    fix c env cov c' assume "cover_collect c cov env = Inr (c', th_cov th)"
    from cover_collect_Inr [OF this] obtain vals where n: "length vals < MAX_COVSZ"
      and c': "c' = collected_ctx c env vals" and cov': "th_cov th = collected_cov c cov env vals"
      by blast
    show "unat (cover_t_size (th_cov th)) = length (hit_slots c' 0 (total_pcs c')) \<and>
      cov_table (th_cov th) = hit_values c' (total_pcs c')"
      unfolding c' cov' collected_total
      using collected_size [OF n] collected_cov_table [OF n] by blast
  qed
  from sizes_on off out len latest show ?thesis by (intro conjI)
qed


theorem write_call_output_coverage_witness:
  "write_call_output (example_globals True True)
     (example_thread 0 (collected_cov (example_ctx [0, 5]) example_cov
                          (example_env [0xA0, 0xB0] [0, 6]) [0xA0, 0xB0]))
     True (example_pipe 4) =
     ([Header (call_reply_of (example_globals True True)
                 (example_thread 0 (collected_cov (example_ctx [0, 5]) example_cov
                                      (example_env [0xA0, 0xB0] [0, 6]) [0xA0, 0xB0])) True),
       Table [0xB1], Table [0xB1]], None) \<and>
   reply_signal_size (call_reply_of (example_globals True True)
       (example_thread 0 (collected_cov (example_ctx [0, 5]) example_cov
                            (example_env [0xA0, 0xB0] [0, 6]) [0xA0, 0xB0])) True) = 1 \<and>
   reply_cover_size (call_reply_of (example_globals True True)
       (example_thread 0 (collected_cov (example_ctx [0, 5]) example_cov
                            (example_env [0xA0, 0xB0] [0, 6]) [0xA0, 0xB0])) True) = 1"
proof -
  let ?vals = "[0xA0, 0xB0] :: uint64 list"
  let ?env = "example_env ?vals [0, 6]"
  let ?c = "example_ctx [0, 5]"
  let ?c' = "collected_ctx ?c ?env ?vals" and ?cov' = "collected_cov ?c example_cov ?env ?vals"
  let ?g = "example_globals True True" and ?th = "example_thread 0 ?cov'"
  have h1: "coverage_ctl_status ?env = ZX_OK" and h2: "vmo_read_status ?env = ZX_OK"
    and h3: "files ?env kCovPcsFileName = Some ?vals"
    and h4: "length ?vals < MAX_COVSZ"
    by (simp_all add: example_env_def MAX_COVSZ_def)
  have cov: "th_cov ?th = ?cov'" by (simp add: example_thread_def)
  have res: "cover_collect ?c example_cov ?env = Inr (?c', th_cov ?th)"
    unfolding cov using h1 h2 h3 h4 by (rule cover_collect_ok)
  have slots: "hit_slots (collect_ctx ?c ?env ?vals) 0 (length ?vals) = [1]"
    by (simp add: hit_slots_def collect_ctx_def example_ctx_def example_env_def array_of_def
        MAX_COVSZ_def upt_rec)
  have "hit_values ?c' (total_pcs ?c') = hit_values (collect_ctx ?c ?env ?vals) (length ?vals)"
    by (simp only: collected_total collected_hit_values)
  also have "\<dots> = map (\<lambda>j. truncated_pc (pc_table (collect_ctx ?c ?env ?vals) j)) [1]"
    by (simp only: hit_values_def slots)
  also have "\<dots> = [0xB1]"
    by (simp add: collect_ctx_def truncated_pc_def kPcFixup_def)
  finally have hits: "hit_values ?c' (total_pcs ?c') = [0xB1]" .
  have "cover_t_size (th_cov ?th) = cover_t_size ?cov'"
    by (simp only: cov)
  also have "\<dots> = of_nat (length (hit_slots (collect_ctx ?c ?env ?vals) 0 (length ?vals)))"
    by (simp add: collected_cov_def)
  also have "\<dots> = 1"
    unfolding slots by simp
  finally have size: "cover_t_size (th_cov ?th) = 1" .
  have flags: "flag_coverage ?g" "flag_collect_cover ?g"
    by (simp_all add: example_globals_def)
  have pipe: "header_wrote (example_pipe 4) = sizeof_call_reply"
      "signal_wrote (example_pipe 4) = 4 * ucast (cover_t_size (th_cov ?th))"
      "cover_wrote (example_pipe 4) = 4 * ucast (cover_t_size (th_cov ?th))"
    unfolding size by (simp_all add: example_pipe_def sizeof_call_reply_def)
  from write_call_output_coverage [of ?g ?th True "example_pipe 4"] flags pipe res
  have out: "write_call_output ?g ?th True (example_pipe 4) =
      ([Header (call_reply_of ?g ?th True), Table (cov_table (th_cov ?th)),
        Table (cov_table (th_cov ?th))], None)"
    and sig: "reply_signal_size (call_reply_of ?g ?th True) = cover_t_size (th_cov ?th)"
    and cvr: "reply_cover_size (call_reply_of ?g ?th True) =
        (if flag_collect_cover ?g then cover_t_size (th_cov ?th) else 0)"
    and tbl: "cov_table (th_cov ?th) = hit_values ?c' (total_pcs ?c')"
    by blast+
  from out sig cvr show ?thesis
    unfolding tbl hits size using flags by simp
qed

text \<open>
  Claim C9. The first chunk written is the reply header, and every header written has
  its comparison-table size, its done flag and its status equal to \<open>0\<close> and the executed
  flag set, whatever the thread state, the \<open>finished\<close> argument and the coverage flags.
\<close>
theorem write_call_output_constant_fields:
  "(header_wrote pipe = sizeof_call_reply \<longrightarrow>
      hd (fst (write_call_output g th finished pipe)) = Header (call_reply_of g th finished)) \<and>
   (\<forall>r. Header r \<in> set (fst (write_call_output g th finished pipe)) \<longrightarrow>
      reply_comps_size r = 0 \<and> reply_done r = 0 \<and> reply_status r = 0 \<and>
      reply_flags r AND call_flag_executed g = call_flag_executed g)"
proof -
  let ?r = "call_reply_of g th finished"
  have every: "\<forall>r. Header r \<in> set (fst (write_call_output g th finished pipe)) \<longrightarrow>
      reply_comps_size r = 0 \<and> reply_done r = 0 \<and> reply_status r = 0 \<and>
      reply_flags r AND call_flag_executed g = call_flag_executed g"
  proof (intro allI impI)
    fix r assume "Header r \<in> set (fst (write_call_output g th finished pipe))"
    then have r: "r = ?r" by (simp add: write_call_output_header)
    show "reply_comps_size r = 0 \<and> reply_done r = 0 \<and> reply_status r = 0 \<and>
      reply_flags r AND call_flag_executed g = call_flag_executed g"
      unfolding r by (simp add: reply_fixed_fields reply_executed)
  qed
  have first: "header_wrote pipe = sizeof_call_reply \<longrightarrow>
            hd (fst (write_call_output g th finished pipe)) = Header ?r"
    by (simp add: write_call_output_first)
  from first every show ?thesis ..
qed

theorem write_call_output_constant_fields_witness:
  "hd (fst (write_call_output (example_globals True True) (example_thread (- 1) example_cov)
              True (example_pipe 0)))
     = Header (call_reply_of (example_globals True True) (example_thread (- 1) example_cov) True) \<and>
   reply_comps_size (call_reply_of (example_globals True True)
                       (example_thread (- 1) example_cov) True) = 0 \<and>
   reply_flags (call_reply_of (example_globals True True)
                  (example_thread (- 1) example_cov) True) AND 1 = 1"
proof -
  let ?g = "example_globals True True" and ?th = "example_thread (- 1) example_cov"
  have w: "header_wrote (example_pipe 0) = sizeof_call_reply"
    by (simp add: example_pipe_def sizeof_call_reply_def)
  have m: "Header (call_reply_of ?g ?th True)
      \<in> set (fst (write_call_output ?g ?th True (example_pipe 0)))"
    using w by (simp add: write_call_output_header)
  have e: "call_flag_executed ?g = 1" by (simp add: example_globals_def)
  from write_call_output_constant_fields [of "example_pipe 0" ?g ?th True] w m
  have "hd (fst (write_call_output ?g ?th True (example_pipe 0)))
          = Header (call_reply_of ?g ?th True)"
    and "reply_comps_size (call_reply_of ?g ?th True) = 0"
    and "reply_flags (call_reply_of ?g ?th True) AND call_flag_executed ?g = call_flag_executed ?g"
    by blast+
  then show ?thesis unfolding e by simp
qed

end
